theory Spec2Isabelle
  imports Complex_Main
begin

section \<open>Data model\<close>

text \<open>
  The persisted schema is the SQL migration; the two page components
  \<open>MarkAttendance\<close> and \<open>CheckAttendance\<close> read and write it through the
  data-access client. A UUID is the string the client handles. A \<open>DATE\<close> is a day
  number: the client's ISO date strings are compared by the backend as dates, and a
  string the backend cannot read as a date makes the call fail, which is the failure
  case of the call below.

  Table rows carry the columns that the modelled operations read or write; timestamps,
  \<open>remarks\<close>, contact fields and the surrogate key of \<open>attendance_records\<close> and
  \<open>class_enrollments\<close> are never read by the code and are left out.
\<close>

type_synonym uuid = string
type_synonym date = int

record student_row =
  s_id :: uuid
  s_roll_number :: string
  s_full_name :: string

record class_row =
  c_id :: uuid
  c_class_name :: string
  c_class_code :: string

record enrollment_row =
  e_student_id :: uuid
  e_class_id :: uuid

record session_row =
  as_id :: uuid
  as_class_id :: uuid
  as_session_date :: date
  as_marked_by :: "uuid option"

record record_row =
  session_id :: uuid
  student_id :: uuid
  status :: string

record db =
  profiles :: "uuid list"
  students :: "student_row list"
  classes :: "class_row list"
  class_enrollments :: "enrollment_row list"
  attendance_sessions :: "session_row list"
  attendance_records :: "record_row list"

text \<open>What a backend call can answer instead of data.\<close>

datatype pg_error =
    RequestFailed
  | MultipleRows
  | UniqueViolation
  | ForeignKeyViolation
  | CheckViolation
  | PolicyViolation
  | IntegerOutOfRange

section \<open>The backend: constraints and row-level security\<close>

definition session_key :: "session_row \<Rightarrow> uuid \<times> date" where
  "session_key s = (as_class_id s, as_session_date s)"

definition record_key :: "record_row \<Rightarrow> uuid \<times> uuid" where
  "record_key r = (session_id r, student_id r)"

text \<open>\<open>CHECK (status IN ('PRESENT', 'ABSENT', 'LATE', 'EXCUSED'))\<close>\<close>

definition status_check :: "string \<Rightarrow> bool" where
  "status_check st = (st \<in> set [''PRESENT'', ''ABSENT'', ''LATE'', ''EXCUSED''])"

text \<open>
  The policies on \<open>attendance_records\<close> for INSERT and DELETE:
  \<open>EXISTS (SELECT 1 FROM attendance_sessions WHERE id = session_id AND marked_by = auth.uid())\<close>.
\<close>

definition marked_by_caller :: "uuid \<Rightarrow> uuid \<Rightarrow> db \<Rightarrow> bool" where
  "marked_by_caller uid sid d =
     (\<exists>s \<in> set (attendance_sessions d). as_id s = sid \<and> as_marked_by s = Some uid)"

text \<open>
  \<open>.from("attendance_sessions").select("id").eq("class_id", c).eq("session_date", dt).maybeSingle()\<close>:
  no row is \<open>null\<close> without an error, one row is that row, more rows are an error.
  Every authenticated caller may read every row. \<open>fails\<close> is a failure of the call
  itself (network, backend), chosen by the environment.
\<close>

definition select_session :: "bool \<Rightarrow> uuid \<Rightarrow> date \<Rightarrow> db \<Rightarrow> pg_error + uuid option" where
  "select_session fails c dt d =
     (if fails then Inl RequestFailed
      else case filter (\<lambda>s. as_class_id s = c \<and> as_session_date s = dt) (attendance_sessions d) of
             [] \<Rightarrow> Inr None
           | [s] \<Rightarrow> Inr (Some (as_id s))
           | _ \<Rightarrow> Inl MultipleRows)"

text \<open>
  \<open>.from("attendance_records").delete().eq("session_id", sid)\<close>: the rows of the session
  that the DELETE policy lets the caller see are removed; rows it hides are skipped
  without an error.
\<close>

definition delete_records :: "bool \<Rightarrow> uuid \<Rightarrow> uuid \<Rightarrow> db \<Rightarrow> pg_error option \<times> db" where
  "delete_records fails uid sid d =
     (if fails then (Some RequestFailed, d)
      else (None, d\<lparr>attendance_records :=
              filter (\<lambda>r. \<not> (session_id r = sid \<and> marked_by_caller uid (session_id r) d))
                (attendance_records d)\<rparr>))"

text \<open>
  \<open>.from("attendance_sessions").insert({class_id, session_date, marked_by}).select().single()\<close>.
  \<open>new_id\<close> is what \<open>gen_random_uuid()\<close> yields. The row must pass the INSERT policy
  \<open>auth.uid() = marked_by\<close>, both foreign keys, the primary key and
  \<open>UNIQUE(class_id, session_date)\<close>.
\<close>

definition insert_session ::
  "bool \<Rightarrow> uuid \<Rightarrow> uuid \<Rightarrow> uuid \<Rightarrow> date \<Rightarrow> uuid \<Rightarrow> db \<Rightarrow> pg_error + (session_row \<times> db)" where
  "insert_session fails uid new_id c dt marker d =
     (let row = \<lparr>as_id = new_id, as_class_id = c, as_session_date = dt, as_marked_by = Some marker\<rparr>
      in if fails then Inl RequestFailed
         else if marker \<noteq> uid then Inl PolicyViolation
         else if c \<notin> set (map c_id (classes d)) then Inl ForeignKeyViolation
         else if marker \<notin> set (profiles d) then Inl ForeignKeyViolation
         else if new_id \<in> set (map as_id (attendance_sessions d)) then Inl UniqueViolation
         else if session_key row \<in> set (map session_key (attendance_sessions d))
              then Inl UniqueViolation
         else Inr (row, d\<lparr>attendance_sessions := attendance_sessions d @ [row]\<rparr>))"

text \<open>
  \<open>.from("attendance_records").insert(records)\<close>: one statement for the whole batch, so
  one offending row rejects all of them. Every row must pass the INSERT policy, the
  status check, both foreign keys and \<open>UNIQUE(session_id, student_id)\<close>, against the
  stored rows and against the other rows of the batch.
\<close>

definition insert_records :: "bool \<Rightarrow> uuid \<Rightarrow> record_row list \<Rightarrow> db \<Rightarrow> pg_error + db" where
  "insert_records fails uid rows d =
     (if fails then Inl RequestFailed
      else if \<exists>r \<in> set rows. \<not> marked_by_caller uid (session_id r) d then Inl PolicyViolation
      else if \<exists>r \<in> set rows. \<not> status_check (status r) then Inl CheckViolation
      else if \<exists>r \<in> set rows. session_id r \<notin> set (map as_id (attendance_sessions d))
           then Inl ForeignKeyViolation
      else if \<exists>r \<in> set rows. student_id r \<notin> set (map s_id (students d))
           then Inl ForeignKeyViolation
      else if \<not> distinct (map record_key (attendance_records d @ rows)) then Inl UniqueViolation
      else Inr (d\<lparr>attendance_records := attendance_records d @ rows\<rparr>))"

text \<open>
  \<open>.from("attendance_records").select("student_id, status, students (roll_number, full_name)")
  .eq("session_id", sid)\<close>: each record with its student embedded; \<open>None\<close> where the
  student row is missing.
\<close>

definition select_records ::
  "bool \<Rightarrow> uuid \<Rightarrow> db \<Rightarrow> pg_error + (record_row \<times> student_row option) list" where
  "select_records fails sid d =
     (if fails then Inl RequestFailed
      else Inr (map (\<lambda>r. (r, find (\<lambda>s. s_id s = student_id r) (students d)))
                 (filter (\<lambda>r. session_id r = sid) (attendance_records d))))"

text \<open>
  \<open>.from("class_enrollments").select("student_id, students (id, roll_number, full_name)")
  .eq("class_id", c)\<close>
\<close>

definition select_enrollments ::
  "bool \<Rightarrow> uuid \<Rightarrow> db \<Rightarrow> pg_error + (enrollment_row \<times> student_row option) list" where
  "select_enrollments fails c d =
     (if fails then Inl RequestFailed
      else Inr (map (\<lambda>e. (e, find (\<lambda>s. s_id s = e_student_id e) (students d)))
                 (filter (\<lambda>e. e_class_id e = c) (class_enrollments d))))"

section \<open>Notifications\<close>

datatype description = NoDescription | Description string | ErrorMessage pg_error

record toast =
  title :: string
  description :: description
  destructive :: bool

section \<open>MarkAttendance\<close>

record Student =
  id_student :: uuid
  roll_number :: string
  full_name :: string
  present :: bool

record mark_state =
  ma_students :: "Student list"
  ma_classes :: "class_row list"
  ma_selectedClass :: string
  ma_loading :: bool
  ma_toasts :: "toast list"

text \<open>
  \<open>loadStudents\<close>: nothing without a selected class; otherwise the enrolled students of
  the class, every one with \<open>present: true\<close>. Reading a field of a missing embedded
  student throws, and the exception leaves the handler before \<open>setLoading(false)\<close>:
  the state stays as it was after \<open>setLoading(true)\<close>.
\<close>

definition roster_of :: "(enrollment_row \<times> student_row option) list \<Rightarrow> Student list option" where
  "roster_of enrollments =
     (if \<exists>e \<in> set enrollments. snd e = None then None
      else Some (map (\<lambda>e. \<lparr>id_student = s_id (the (snd e)),
                            roll_number = s_roll_number (the (snd e)),
                            full_name = s_full_name (the (snd e)),
                            present = True\<rparr>) enrollments))"

definition loadStudents :: "bool \<Rightarrow> mark_state \<Rightarrow> db \<Rightarrow> mark_state" where
  "loadStudents fails st d =
     (if ma_selectedClass st = [] then st
      else case select_enrollments fails (ma_selectedClass st) d of
             Inl e \<Rightarrow>
               st\<lparr>ma_loading := False,
                  ma_toasts := ma_toasts st @
                    [\<lparr>title = ''Error loading students'', description = ErrorMessage e,
                      destructive = True\<rparr>]\<rparr>
           | Inr enrollments \<Rightarrow>
               (case roster_of enrollments of
                  None \<Rightarrow> st\<lparr>ma_loading := True\<rparr>
                | Some studentData \<Rightarrow> st\<lparr>ma_students := studentData, ma_loading := False\<rparr>))"

definition toggleAttendance :: "uuid \<Rightarrow> mark_state \<Rightarrow> mark_state" where
  "toggleAttendance i st =
     st\<lparr>ma_students :=
          map (\<lambda>student. if id_student student = i
                          then student\<lparr>present := \<not> present student\<rparr> else student)
            (ma_students st)\<rparr>"

text \<open>What the environment decides during one \<open>handleSubmit\<close>.\<close>

record submit_env =
  today :: date
  new_session_id :: uuid
  lookup_fails :: bool
  delete_fails :: bool
  session_insert_fails :: bool
  records_insert_fails :: bool

definition records_of :: "uuid \<Rightarrow> Student list \<Rightarrow> record_row list" where
  "records_of sessionId sts =
     map (\<lambda>s. \<lparr>session_id = sessionId, student_id = id_student s,
                status = (if present s then ''PRESENT'' else ''ABSENT'')\<rparr>) sts"

text \<open>
  The body of the \<open>try\<close> block. \<open>sessionFetchError\<close> is bound and never read, and the
  result of the delete call is dropped: after a failed lookup \<open>existingSession\<close> is
  \<open>null\<close> and the flow takes the branch that creates a session, and after a failed
  delete the flow goes on to the insert. \<open>Inl e\<close> is \<open>throw e\<close>.
\<close>

definition submit_body :: "submit_env \<Rightarrow> uuid \<Rightarrow> uuid \<Rightarrow> Student list \<Rightarrow> db \<Rightarrow> (pg_error + unit) \<times> db" where
  "submit_body env uid c sts d =
     (let existingSession =
            (case select_session (lookup_fails env) c (today env) d of
               Inr (Some i) \<Rightarrow> Some i
             | _ \<Rightarrow> None)
      in case existingSession of
           Some sessionId \<Rightarrow>
             (let d1 = snd (delete_records (delete_fails env) uid sessionId d)
              in case insert_records (records_insert_fails env) uid (records_of sessionId sts) d1 of
                   Inl e \<Rightarrow> (Inl e, d1)
                 | Inr d2 \<Rightarrow> (Inr (), d2))
         | None \<Rightarrow>
             (case insert_session (session_insert_fails env) uid (new_session_id env) c (today env) uid d of
                Inl e \<Rightarrow> (Inl e, d)
              | Inr (newSession, d1) \<Rightarrow>
                  (case insert_records (records_insert_fails env) uid
                          (records_of (as_id newSession) sts) d1 of
                     Inl e \<Rightarrow> (Inl e, d1)
                   | Inr d2 \<Rightarrow> (Inr (), d2))))"

definition handleSubmit :: "submit_env \<Rightarrow> uuid option \<Rightarrow> mark_state \<Rightarrow> db \<Rightarrow> mark_state \<times> db" where
  "handleSubmit env user st d =
     (if ma_selectedClass st = [] \<or> user = None
      then (st\<lparr>ma_toasts := ma_toasts st @
                 [\<lparr>title = ''Error'',
                   description = Description ''Please select a class and ensure you're logged in'',
                   destructive = True\<rparr>]\<rparr>, d)
      else case submit_body env (the user) (ma_selectedClass st) (ma_students st) d of
             (Inr _, d') \<Rightarrow>
               (st\<lparr>ma_loading := False,
                   ma_toasts := ma_toasts st @
                     [\<lparr>title = ''Attendance submitted!'',
                       description = Description ''Today's attendance has been recorded successfully.'',
                       destructive = False\<rparr>]\<rparr>, d')
           | (Inl e, d') \<Rightarrow>
               (st\<lparr>ma_loading := False,
                   ma_toasts := ma_toasts st @
                     [\<lparr>title = ''Error submitting attendance'', description = ErrorMessage e,
                       destructive = True\<rparr>]\<rparr>, d'))"

section \<open>CheckAttendance\<close>

record AttendanceRecord =
  ar_student_id :: uuid
  ar_roll_number :: string
  ar_full_name :: string
  ar_status :: string

record check_state =
  ca_selectedDate :: date
  ca_selectedClass :: string
  ca_classes :: "class_row list"
  ca_records :: "AttendanceRecord list"
  ca_hasSearched :: bool
  ca_loading :: bool
  ca_toasts :: "toast list"

record fetch_env =
  session_fetch_fails :: bool
  records_fetch_fails :: bool

definition formattedRecords ::
  "(record_row \<times> student_row option) list \<Rightarrow> AttendanceRecord list option" where
  "formattedRecords attendanceData =
     (if \<exists>x \<in> set attendanceData. snd x = None then None
      else Some (map (\<lambda>x. \<lparr>ar_student_id = student_id (fst x),
                            ar_roll_number = s_roll_number (the (snd x)),
                            ar_full_name = s_full_name (the (snd x)),
                            ar_status = status (fst x)\<rparr>) attendanceData))"

text \<open>
  \<open>fetchAttendance\<close>. As in \<open>loadStudents\<close>, a missing embedded student makes the
  mapping throw, and the state stays as it was after the two setters at the start.
\<close>

definition fetchAttendance :: "fetch_env \<Rightarrow> check_state \<Rightarrow> db \<Rightarrow> check_state" where
  "fetchAttendance env st d =
     (if ca_selectedClass st = []
      then st\<lparr>ca_toasts := ca_toasts st @
                [\<lparr>title = ''Please select a class'', description = NoDescription,
                  destructive = True\<rparr>]\<rparr>
      else
        let st1 = st\<lparr>ca_hasSearched := True, ca_loading := True\<rparr>
        in case select_session (session_fetch_fails env) (ca_selectedClass st) (ca_selectedDate st) d of
             Inl sessionError \<Rightarrow>
               st1\<lparr>ca_loading := False,
                   ca_toasts := ca_toasts st @
                     [\<lparr>title = ''Error fetching attendance'', description = ErrorMessage sessionError,
                       destructive = True\<rparr>]\<rparr>
           | Inr None \<Rightarrow> st1\<lparr>ca_records := [], ca_loading := False\<rparr>
           | Inr (Some session) \<Rightarrow>
               (case select_records (records_fetch_fails env) session d of
                  Inl recordsError \<Rightarrow>
                    st1\<lparr>ca_loading := False,
                        ca_toasts := ca_toasts st @
                          [\<lparr>title = ''Error fetching records'', description = ErrorMessage recordsError,
                            destructive = True\<rparr>]\<rparr>
                | Inr attendanceData \<Rightarrow>
                    (case formattedRecords attendanceData of
                       None \<Rightarrow> st1
                     | Some rs \<Rightarrow> st1\<lparr>ca_records := rs, ca_loading := False\<rparr>)))"

section \<open>The percentage function of the backend\<close>

text \<open>
  \<open>calculate_attendance_percentage(p_student_id, p_class_id, p_start_date, p_end_date)\<close>.
  The optional filters are \<open>NULL\<close> (\<open>None\<close>) by default. Both counts are stored in
  \<open>INTEGER\<close> variables, an assignment that raises beyond \<open>2147483647\<close>. \<open>NUMERIC\<close>
  values are rationals, and \<open>ROUND(x, n)\<close> on them rounds half away from zero. The
  quotient is taken exactly: the backend computes it to at least 16 significant digits,
  and for counts that fit \<open>INTEGER\<close> an error of that size never moves the quotient
  across a boundary of the rounding to 2 decimals.
\<close>

definition joined_rows ::
  "uuid \<Rightarrow> uuid option \<Rightarrow> date option \<Rightarrow> date option \<Rightarrow> db \<Rightarrow> (record_row \<times> session_row) list" where
  "joined_rows p_student_id p_class_id p_start_date p_end_date d =
     [(ar, asess). ar \<leftarrow> attendance_records d, asess \<leftarrow> attendance_sessions d,
        session_id ar = as_id asess,
        student_id ar = p_student_id
        \<and> (p_class_id = None \<or> as_class_id asess = the p_class_id)
        \<and> (p_start_date = None \<or> as_session_date asess \<ge> the p_start_date)
        \<and> (p_end_date = None \<or> as_session_date asess \<le> the p_end_date)]"

definition into_integer :: "nat \<Rightarrow> pg_error + int" where
  "into_integer n = (if n > 2147483647 then Inl IntegerOutOfRange else Inr (int n))"

definition pg_round :: "rat \<Rightarrow> nat \<Rightarrow> rat" where
  "pg_round x n =
     (let y = x * 10 ^ n
      in (if y \<ge> 0 then of_int \<lfloor>y + 1 / 2\<rfloor> else - of_int \<lfloor>- y + 1 / 2\<rfloor>) / 10 ^ n)"

definition calculate_attendance_percentage ::
  "uuid \<Rightarrow> uuid option \<Rightarrow> date option \<Rightarrow> date option \<Rightarrow> db \<Rightarrow> pg_error + rat" where
  "calculate_attendance_percentage p_student_id p_class_id p_start_date p_end_date d =
     (let rows = joined_rows p_student_id p_class_id p_start_date p_end_date d
      in case into_integer (length (remdups (map (\<lambda>x. session_id (fst x)) rows))) of
           Inl e \<Rightarrow> Inl e
         | Inr total_sessions \<Rightarrow>
             (case into_integer (length (filter (\<lambda>x. status (fst x) = ''PRESENT'') rows)) of
                Inl e \<Rightarrow> Inl e
              | Inr present_count \<Rightarrow>
                  if total_sessions = 0 then Inr 0
                  else Inr (pg_round (of_int present_count / of_int total_sessions * 100) 2)))"

text \<open>
  The percentage as the specification words it: over the records of the student whose
  session passes the filters, the number of PRESENT records by the number of records,
  times 100, rounded to 2 decimals, and 0 when there is no such record.
\<close>

definition matching_records ::
  "uuid \<Rightarrow> uuid option \<Rightarrow> date option \<Rightarrow> date option \<Rightarrow> db \<Rightarrow> record_row list" where
  "matching_records p cl sd ed d =
     filter (\<lambda>r. student_id r = p \<and>
                 (\<exists>s \<in> set (attendance_sessions d). as_id s = session_id r
                    \<and> (cl = None \<or> as_class_id s = the cl)
                    \<and> (sd = None \<or> as_session_date s \<ge> the sd)
                    \<and> (ed = None \<or> as_session_date s \<le> the ed)))
       (attendance_records d)"

definition spec_percentage :: "uuid \<Rightarrow> uuid option \<Rightarrow> date option \<Rightarrow> date option \<Rightarrow> db \<Rightarrow> rat" where
  "spec_percentage p cl sd ed d =
     (let total = length (matching_records p cl sd ed d);
          present_count = length (filter (\<lambda>r. status r = ''PRESENT'') (matching_records p cl sd ed d))
      in if total = 0 then 0
         else pg_round (of_nat present_count / of_nat total * 100) 2)"

section \<open>The application as a state machine\<close>

text \<open>
  The pages run one handler at a time. An event is one user action (or one effect that
  React runs after a state change) together with what the environment decides for it.
  The effect that calls \<open>loadStudents\<close> after \<open>selectedClass\<close> changes is an event
  of its own, so every order of the two is covered.
\<close>

record system =
  sys_db :: db
  sys_mark :: mark_state
  sys_check :: check_state

datatype event =
    MarkSelectClass string
  | LoadStudents bool
  | Toggle uuid
  | Submit submit_env "uuid option"
  | CheckSelectClass string
  | CheckSelectDate date
  | Fetch fetch_env

fun step :: "system \<Rightarrow> event \<Rightarrow> system" where
  "step s (MarkSelectClass c) = s\<lparr>sys_mark := (sys_mark s)\<lparr>ma_selectedClass := c\<rparr>\<rparr>"
| "step s (LoadStudents fails) = s\<lparr>sys_mark := loadStudents fails (sys_mark s) (sys_db s)\<rparr>"
| "step s (Toggle i) = s\<lparr>sys_mark := toggleAttendance i (sys_mark s)\<rparr>"
| "step s (Submit env user) =
     (case handleSubmit env user (sys_mark s) (sys_db s) of
        (st, d) \<Rightarrow> s\<lparr>sys_db := d, sys_mark := st\<rparr>)"
| "step s (CheckSelectClass c) = s\<lparr>sys_check := (sys_check s)\<lparr>ca_selectedClass := c\<rparr>\<rparr>"
| "step s (CheckSelectDate dt) = s\<lparr>sys_check := (sys_check s)\<lparr>ca_selectedDate := dt\<rparr>\<rparr>"
| "step s (Fetch env) = s\<lparr>sys_check := fetchAttendance env (sys_check s) (sys_db s)\<rparr>"

definition run :: "system \<Rightarrow> event list \<Rightarrow> system" where
  "run s evs = foldl step s evs"

text \<open>
  A state right after the migration: the two attendance tables are empty, the other
  tables hold anything, and both pages are in the state their \<open>useState\<close> calls give.
\<close>

definition initial :: "uuid list \<Rightarrow> student_row list \<Rightarrow> class_row list \<Rightarrow> enrollment_row list \<Rightarrow> date \<Rightarrow> system" where
  "initial ps sts cls ens now =
     \<lparr>sys_db = \<lparr>profiles = ps, students = sts, classes = cls, class_enrollments = ens,
                 attendance_sessions = [], attendance_records = []\<rparr>,
      sys_mark = \<lparr>ma_students = [], ma_classes = [], ma_selectedClass = [], ma_loading = False,
                   ma_toasts = []\<rparr>,
      sys_check = \<lparr>ca_selectedDate = now, ca_selectedClass = [], ca_classes = [], ca_records = [],
                    ca_hasSearched = False, ca_loading = False, ca_toasts = []\<rparr>\<rparr>"


definition sessions_pkey :: "db \<Rightarrow> bool" where
  "sessions_pkey d = distinct (map as_id (attendance_sessions d))"

definition records_unique :: "db \<Rightarrow> bool" where
  "records_unique d = distinct (map record_key (attendance_records d))"

definition records_session_fkey :: "db \<Rightarrow> bool" where
  "records_session_fkey d =
     (\<forall>r \<in> set (attendance_records d). session_id r \<in> set (map as_id (attendance_sessions d)))"

definition enrollments_unique :: "db \<Rightarrow> bool" where
  "enrollments_unique d =
     distinct (map (\<lambda>e. (e_student_id e, e_class_id e)) (class_enrollments d))"

definition enrollments_student_fkey :: "db \<Rightarrow> bool" where
  "enrollments_student_fkey d =
     (\<forall>e \<in> set (class_enrollments d). e_student_id e \<in> set (map s_id (students d)))"

section \<open>Sample data\<close>

text \<open>
  The first three students of the migration's sample data, enrolled in its class CS101,
  and one teacher profile. The identifiers stand for the generated UUIDs; day 9425 is
  2025-10-21 counted from 2000-01-01.
\<close>

definition sample_db :: db where
  "sample_db =
     \<lparr>profiles = [''t1''],
      students = [\<lparr>s_id = ''s1'', s_roll_number = ''STU001'', s_full_name = ''John Doe''\<rparr>,
                  \<lparr>s_id = ''s2'', s_roll_number = ''STU002'', s_full_name = ''Mary Smith''\<rparr>,
                  \<lparr>s_id = ''s3'', s_roll_number = ''STU003'', s_full_name = ''Christian Brown''\<rparr>],
      classes = [\<lparr>c_id = ''c1'', c_class_name = ''Introduction to Computer Science'',
                   c_class_code = ''CS101''\<rparr>],
      class_enrollments = [\<lparr>e_student_id = ''s1'', e_class_id = ''c1''\<rparr>,
                           \<lparr>e_student_id = ''s2'', e_class_id = ''c1''\<rparr>,
                           \<lparr>e_student_id = ''s3'', e_class_id = ''c1''\<rparr>],
      attendance_sessions = [],
      attendance_records = []\<rparr>"

definition sample_marked :: "(uuid \<times> string) list \<Rightarrow> db" where
  "sample_marked marks =
     sample_db\<lparr>attendance_sessions :=
                 [\<lparr>as_id = ''n1'', as_class_id = ''c1'', as_session_date = 9425,
                   as_marked_by = Some ''t1''\<rparr>],
               attendance_records :=
                 map (\<lambda>m. \<lparr>session_id = ''n1'', student_id = fst m, status = snd m\<rparr>) marks\<rparr>"

definition sample_student :: "uuid \<Rightarrow> string \<Rightarrow> string \<Rightarrow> bool \<Rightarrow> Student" where
  "sample_student i r n p = \<lparr>id_student = i, roll_number = r, full_name = n, present = p\<rparr>"

definition sample_mark :: "Student list \<Rightarrow> mark_state" where
  "sample_mark sts =
     \<lparr>ma_students = sts, ma_classes = classes sample_db, ma_selectedClass = ''c1'',
      ma_loading = False, ma_toasts = []\<rparr>"

definition sample_env :: "bool \<Rightarrow> bool \<Rightarrow> submit_env" where
  "sample_env lf df =
     \<lparr>today = 9425, new_session_id = ''n1'', lookup_fails = lf, delete_fails = df,
      session_insert_fails = False, records_insert_fails = False\<rparr>"

definition sample_check :: "AttendanceRecord list \<Rightarrow> check_state" where
  "sample_check rs =
     \<lparr>ca_selectedDate = 9425, ca_selectedClass = ''c1'', ca_classes = classes sample_db,
      ca_records = rs, ca_hasSearched = False, ca_loading = False, ca_toasts = []\<rparr>"

definition sample_history :: db where
  "sample_history =
     sample_db\<lparr>attendance_sessions :=
                 [\<lparr>as_id = ''n1'', as_class_id = ''c1'', as_session_date = 9425,
                   as_marked_by = Some ''t1''\<rparr>,
                  \<lparr>as_id = ''n2'', as_class_id = ''c1'', as_session_date = 9426,
                   as_marked_by = Some ''t1''\<rparr>,
                  \<lparr>as_id = ''n3'', as_class_id = ''c1'', as_session_date = 9427,
                   as_marked_by = Some ''t1''\<rparr>],
               attendance_records :=
                 [\<lparr>session_id = ''n1'', student_id = ''s1'', status = ''PRESENT''\<rparr>,
                  \<lparr>session_id = ''n1'', student_id = ''s2'', status = ''ABSENT''\<rparr>,
                  \<lparr>session_id = ''n2'', student_id = ''s1'', status = ''ABSENT''\<rparr>,
                  \<lparr>session_id = ''n3'', student_id = ''s1'', status = ''PRESENT''\<rparr>]\<rparr>"

section \<open>What the backend calls do to the tables\<close>

lemmas sample_defs = sample_db_def sample_marked_def sample_student_def sample_mark_def
  sample_env_def sample_check_def sample_history_def

lemmas call_defs = select_session_def delete_records_def insert_session_def insert_records_def
  select_records_def select_enrollments_def marked_by_caller_def status_check_def
  session_key_def record_key_def records_of_def

lemma delete_records_sessions [simp]:
  "attendance_sessions (snd (delete_records fails uid sid d)) = attendance_sessions d"
  by (simp add: delete_records_def)

lemma insert_records_sessions:
  "insert_records fails uid rows d = Inr d' \<Longrightarrow> attendance_sessions d' = attendance_sessions d"
  by (auto simp: insert_records_def split: if_splits)

lemma insert_records_records:
  "insert_records fails uid rows d = Inr d' \<Longrightarrow>
     attendance_records d' = attendance_records d @ rows \<and> distinct (map record_key (attendance_records d @ rows))"
  by (auto simp: insert_records_def split: if_splits)

lemma insert_session_sessions:
  "insert_session fails uid new_id c dt marker d = Inr (row, d') \<Longrightarrow>
     attendance_sessions d' = attendance_sessions d @ [row] \<and> attendance_records d' = attendance_records d
     \<and> session_key row = (c, dt) \<and> as_id row = new_id
     \<and> session_key row \<notin> set (map session_key (attendance_sessions d))
     \<and> new_id \<notin> set (map as_id (attendance_sessions d))"
  by (auto simp: insert_session_def Let_def session_key_def split: if_splits)

lemma submit_body_sessions:
  "attendance_sessions (snd (submit_body env uid c sts d)) = attendance_sessions d
   \<or> (\<exists>row. attendance_sessions (snd (submit_body env uid c sts d)) = attendance_sessions d @ [row]
        \<and> session_key row = (c, today env) \<and> as_id row = new_session_id env
        \<and> session_key row \<notin> set (map session_key (attendance_sessions d))
        \<and> as_id row \<notin> set (map as_id (attendance_sessions d)))"
  unfolding submit_body_def Let_def
  by (auto split: sum.splits option.splits prod.splits
      dest!: insert_session_sessions insert_records_sessions)

lemma handleSubmit_sessions:
  "attendance_sessions (snd (handleSubmit env user st d)) = attendance_sessions d
   \<or> (\<exists>row. attendance_sessions (snd (handleSubmit env user st d)) = attendance_sessions d @ [row]
        \<and> session_key row = (ma_selectedClass st, today env) \<and> as_id row = new_session_id env
        \<and> session_key row \<notin> set (map session_key (attendance_sessions d))
        \<and> as_id row \<notin> set (map as_id (attendance_sessions d)))"
proof (cases "ma_selectedClass st = [] \<or> user = None")
  case True
  then show ?thesis by (simp add: handleSubmit_def)
next
  case False
  have eq: "snd (handleSubmit env user st d) = snd (submit_body env (the user) (ma_selectedClass st) (ma_students st) d)"
    using False by (auto simp: handleSubmit_def split: prod.splits sum.splits)
  show ?thesis unfolding eq by (rule submit_body_sessions)
qed

lemma step_db:
  "sys_db (step s ev) = sys_db s \<or> (\<exists>env user. ev = Submit env user \<and> sys_db (step s ev) = snd (handleSubmit env user (sys_mark s) (sys_db s)))"
  by (cases ev) (auto split: prod.splits)

lemma delete_records_records:
  "attendance_records (snd (delete_records fails uid sid d)) =
     (if fails then attendance_records d
      else filter (\<lambda>r. \<not> (session_id r = sid \<and> marked_by_caller uid sid d)) (attendance_records d))"
  by (auto simp: delete_records_def intro: filter_cong)

lemma delete_records_subset:
  "set (attendance_records (snd (delete_records fails uid sid d))) \<subseteq> set (attendance_records d)"
  by (auto simp: delete_records_records)

lemma delete_records_unique:
  "records_unique d \<Longrightarrow> records_unique (snd (delete_records fails uid sid d))"
  by (simp add: records_unique_def delete_records_records distinct_map_filter)

lemma submit_body_records_unique:
  "records_unique d \<Longrightarrow> records_unique (snd (submit_body env uid c sts d))"
  unfolding submit_body_def Let_def
  by (auto split: sum.splits option.splits prod.splits
      dest!: insert_session_sessions insert_records_records
      simp: delete_records_unique)
    (auto simp: records_unique_def)



lemma handleSubmit_snd:
  "snd (handleSubmit env user st d) =
     (if ma_selectedClass st = [] \<or> user = None then d
      else snd (submit_body env (the user) (ma_selectedClass st) (ma_students st) d))"
  by (auto simp: handleSubmit_def split: prod.splits sum.splits)

lemma handleSubmit_records_unique:
  "records_unique d \<Longrightarrow> records_unique (snd (handleSubmit env user st d))"
  by (simp add: handleSubmit_snd submit_body_records_unique)


lemma handleSubmit_sessions_pkey:
  "sessions_pkey d \<Longrightarrow> sessions_pkey (snd (handleSubmit env user st d))"
  using handleSubmit_sessions[of env user st d]
  by (auto simp: sessions_pkey_def)

lemma step_invariant:
  assumes "\<And>env user st d. P d \<Longrightarrow> P (snd (handleSubmit env user st d))" and "P (sys_db s)"
  shows "P (sys_db (step s ev))"
  using step_db[of s ev] assms by auto

lemma run_invariant:
  assumes "\<And>env user st d. P d \<Longrightarrow> P (snd (handleSubmit env user st d))" and "P (sys_db s)"
  shows "P (sys_db (run s evs))"
  using assms(2) unfolding run_def
proof (induction evs arbitrary: s)
  case Nil
  then show ?case by simp
next
  case (Cons ev evs)
  have "P (sys_db (step s ev))" by (rule step_invariant[OF assms(1) Cons.prems])
  then show ?case using Cons.IH by simp
qed


lemma run_records_unique: "records_unique (sys_db s) \<Longrightarrow> records_unique (sys_db (run s evs))"
  by (rule run_invariant[where P = records_unique, OF handleSubmit_records_unique])

lemma initial_fresh:
  "attendance_sessions (sys_db (initial ps sts cls ens now)) = []"
  "attendance_records (sys_db (initial ps sts cls ens now)) = []"
  by (simp_all add: initial_def)


lemma select_session_none:
  "(c, dt) \<notin> set (map session_key (attendance_sessions d)) \<Longrightarrow>
     select_session False c dt d = Inr None"
proof -
  assume a: "(c, dt) \<notin> set (map session_key (attendance_sessions d))"
  have "filter (\<lambda>s. as_class_id s = c \<and> as_session_date s = dt) (attendance_sessions d) = []"
    using a by (auto simp: filter_empty_conv session_key_def image_iff)
  then show ?thesis by (simp add: select_session_def)
qed











section \<open>The constraints hold in every reachable state\<close>

lemma insert_records_fkey:
  "insert_records fails uid rows d = Inr d' \<Longrightarrow>
     \<forall>r\<in>set rows. session_id r \<in> set (map as_id (attendance_sessions d))"
  unfolding insert_records_def by (simp split: if_splits)

lemma append_fkey:
  assumes "records_session_fkey d" "attendance_sessions d' = attendance_sessions d @ ss"
    "set (attendance_records d') \<subseteq> set (attendance_records d) \<union> set rows"
    "\<forall>r\<in>set rows. session_id r \<in> set (map as_id (attendance_sessions d'))"
  shows "records_session_fkey d'"
  unfolding records_session_fkey_def
proof
  fix r assume "r \<in> set (attendance_records d')"
  then consider "r \<in> set (attendance_records d)" | "r \<in> set rows" using assms(3) by blast
  then show "session_id r \<in> set (map as_id (attendance_sessions d'))"
  proof cases
    case 1
    then have "session_id r \<in> set (map as_id (attendance_sessions d))"
      using assms(1) unfolding records_session_fkey_def by blast
    then show ?thesis unfolding assms(2) by simp
  next
    case 2
    then show ?thesis using assms(4) by blast
  qed
qed

lemma delete_records_fkey:
  "records_session_fkey d \<Longrightarrow> records_session_fkey (snd (delete_records fails uid sid d))"
proof -
  assume a: "records_session_fkey d"
  have s: "set (attendance_records (snd (delete_records fails uid sid d)))
             \<subseteq> set (attendance_records d) \<union> set []"
    using delete_records_subset[of fails uid sid d] by simp
  show ?thesis
    by (rule append_fkey[OF a _ s, where ss = "[]"]) simp_all
qed

lemma submit_body_fkey:
  assumes "records_session_fkey d"
  shows "records_session_fkey (snd (submit_body env uid c sts d))"
proof (cases "case select_session (lookup_fails env) c (today env) d of
               Inr (Some i) \<Rightarrow> Some i | _ \<Rightarrow> None")
  case (Some sessionId)
  let ?d1 = "snd (delete_records (delete_fails env) uid sessionId d)"
  have d1: "records_session_fkey ?d1" by (rule delete_records_fkey[OF assms])
  show ?thesis
  proof (cases "insert_records (records_insert_fails env) uid (records_of sessionId sts) ?d1")
    case (Inl e)
    then show ?thesis using d1 Some by (simp add: submit_body_def Let_def)
  next
    case (Inr d2)
    have "records_session_fkey d2"
      by (rule append_fkey[OF d1, where ss = "[]" and rows = "records_of sessionId sts"])
        (use insert_records_sessions[OF Inr] insert_records_records[OF Inr]
          insert_records_fkey[OF Inr] in simp_all)
    then show ?thesis using Inr Some by (simp add: submit_body_def Let_def)
  qed
next
  case None
  show ?thesis
  proof (cases "insert_session (session_insert_fails env) uid (new_session_id env) c (today env) uid d")
    case (Inl e)
    then show ?thesis using assms None by (simp add: submit_body_def Let_def)
  next
    case (Inr p)
    obtain row d1 where p: "p = (row, d1)" by (cases p)
    note ins = insert_session_sessions[OF Inr[unfolded p]]
    have d1: "records_session_fkey d1"
      by (rule append_fkey[OF assms, where ss = "[row]" and rows = "[]"]) (use ins in simp_all)
    show ?thesis
    proof (cases "insert_records (records_insert_fails env) uid (records_of (as_id row) sts) d1")
      case (Inl e)
      then show ?thesis using d1 None Inr p by (simp add: submit_body_def Let_def)
    next
      case (Inr d2)
      have "records_session_fkey d2"
        by (rule append_fkey[OF d1, where ss = "[]" and rows = "records_of (as_id row) sts"])
          (use insert_records_sessions[OF Inr] insert_records_records[OF Inr]
            insert_records_fkey[OF Inr] in simp_all)
      then show ?thesis using Inr None \<open>insert_session _ _ _ _ _ _ _ = Inr p\<close> p
        by (simp add: submit_body_def Let_def)
    qed
  qed
qed

lemma handleSubmit_fkey:
  "records_session_fkey d \<Longrightarrow> records_session_fkey (snd (handleSubmit env user st d))"
  by (simp add: handleSubmit_snd submit_body_fkey)

lemma run_records_session_fkey:
  "records_session_fkey (sys_db s) \<Longrightarrow> records_session_fkey (sys_db (run s evs))"
  by (rule run_invariant[where P = records_session_fkey, OF handleSubmit_fkey])

lemma run_sessions_pkey: "sessions_pkey (sys_db s) \<Longrightarrow> sessions_pkey (sys_db (run s evs))"
  by (rule run_invariant[where P = sessions_pkey, OF handleSubmit_sessions_pkey])

lemma reachable_constraints:
  "sessions_pkey (sys_db (run (initial ps sts cls ens now) evs))"
  "records_session_fkey (sys_db (run (initial ps sts cls ens now) evs))"
  by (rule run_sessions_pkey, simp add: sessions_pkey_def initial_fresh,
      rule run_records_session_fkey, simp add: records_session_fkey_def initial_fresh)

section \<open>Rosters come from enrollments\<close>

lemma find_student:
  "i \<in> set (map s_id sts) \<Longrightarrow> \<exists>s. find (\<lambda>s. s_id s = i) sts = Some s \<and> s_id s = i"
  by (induction sts) auto

lemma loadStudents_roster:
  assumes cls: "ma_selectedClass st \<noteq> []" and nf: "\<not> fails"
    and fk: "enrollments_student_fkey d"
  shows "map id_student (ma_students (loadStudents fails st d))
           = map e_student_id (filter (\<lambda>e. e_class_id e = ma_selectedClass st) (class_enrollments d))"
    and "\<forall>s\<in>set (ma_students (loadStudents fails st d)). present s"
    and "ma_loading (loadStudents fails st d) = False"
proof -
  let ?ens = "map (\<lambda>e. (e, find (\<lambda>s. s_id s = e_student_id e) (students d)))
                 (filter (\<lambda>e. e_class_id e = ma_selectedClass st) (class_enrollments d))"
  let ?mk = "\<lambda>e. \<lparr>id_student = s_id (the (snd e)),
                            roll_number = s_roll_number (the (snd e)),
                            full_name = s_full_name (the (snd e)),
                            present = True\<rparr>"
  have sel: "select_enrollments fails (ma_selectedClass st) d = Inr ?ens"
    using nf by (simp add: select_enrollments_def)
  have some: "\<forall>x\<in>set ?ens. (\<exists>s. snd x = Some s \<and> s_id s = e_student_id (fst x))"
    using fk find_student unfolding enrollments_student_fkey_def by fastforce
  then have nn: "\<not> (\<exists>x\<in>set ?ens. snd x = None)" by fastforce
  have ros: "roster_of ?ens = Some (map ?mk ?ens)"
    unfolding roster_of_def using nn by simp
  have ld: "loadStudents fails st d = st\<lparr>ma_students := map ?mk ?ens, ma_loading := False\<rparr>"
    using cls by (simp add: loadStudents_def sel ros)
  have ids: "map (\<lambda>x. s_id (the (snd x))) ?ens = map (\<lambda>x. e_student_id (fst x)) ?ens"
    using some by (intro map_cong[OF refl]) fastforce
  have "map id_student (ma_students (loadStudents fails st d)) = map (\<lambda>x. s_id (the (snd x))) ?ens"
    unfolding ld by (simp add: comp_def)
  also have "\<dots> = map (\<lambda>x. e_student_id (fst x)) ?ens" by (rule ids)
  also have "\<dots> = map e_student_id (filter (\<lambda>e. e_class_id e = ma_selectedClass st) (class_enrollments d))"
    by (simp add: comp_def)
  finally show "map id_student (ma_students (loadStudents fails st d))
           = map e_student_id (filter (\<lambda>e. e_class_id e = ma_selectedClass st) (class_enrollments d))" .
  show "\<forall>s\<in>set (ma_students (loadStudents fails st d)). present s"
    unfolding ld by simp
  show "ma_loading (loadStudents fails st d) = False"
    unfolding ld by simp
qed

lemma enrolled_students_distinct:
  assumes "enrollments_unique d"
  shows "distinct (map e_student_id (filter (\<lambda>e. e_class_id e = c) (class_enrollments d)))"
proof -
  let ?es = "filter (\<lambda>e. e_class_id e = c) (class_enrollments d)"
  have "distinct (map (\<lambda>e. (e_student_id e, e_class_id e)) ?es)"
    using assms unfolding enrollments_unique_def by (rule distinct_map_filter)
  moreover have "map (\<lambda>e. (e_student_id e, e_class_id e)) ?es = map (\<lambda>i. (i, c)) (map e_student_id ?es)"
    by (simp add: comp_def cong: map_cong)
  ultimately have "distinct (map (\<lambda>i. (i, c)) (map e_student_id ?es))" by simp
  then show ?thesis by (simp only: distinct_map)
qed

lemma loadStudents_distinct:
  assumes "ma_selectedClass st \<noteq> []" "\<not> fails" "enrollments_student_fkey d" "enrollments_unique d"
  shows "distinct (map id_student (ma_students (loadStudents fails st d)))"
  unfolding loadStudents_roster(1)[OF assms(1-3)] by (rule enrolled_students_distinct[OF assms(4)])

lemma toggleAttendance_ids:
  "map id_student (ma_students (toggleAttendance i st)) = map id_student (ma_students st)"
  by (simp add: toggleAttendance_def comp_def cong: map_cong)

section \<open>The submission\<close>








text \<open>
  Claim C4. A failure at any step should abort the submission: after a failed session
  lookup nothing should be written, and after a failed delete no record should be
  inserted. The code reads neither error. With the lookup failing on the sample data a
  session and the three records are written and success is reported; with the delete
  failing, on a session that holds a record of a student who has left the roster, the new
  record is inserted beside the stale one and success is reported.
\<close>

theorem submit_goes_on_after_failed_lookup_or_delete:
  "handleSubmit (sample_env True False) (Some ''t1'')
       (sample_mark [sample_student ''s1'' ''STU001'' ''John Doe'' False,
                     sample_student ''s2'' ''STU002'' ''Mary Smith'' True,
                     sample_student ''s3'' ''STU003'' ''Christian Brown'' True]) sample_db
     = ((sample_mark [sample_student ''s1'' ''STU001'' ''John Doe'' False,
                      sample_student ''s2'' ''STU002'' ''Mary Smith'' True,
                      sample_student ''s3'' ''STU003'' ''Christian Brown'' True])
          \<lparr>ma_toasts := [\<lparr>title = ''Attendance submitted!'',
             description = Description ''Today's attendance has been recorded successfully.'',
             destructive = False\<rparr>]\<rparr>,
        sample_marked [(''s1'', ''ABSENT''), (''s2'', ''PRESENT''), (''s3'', ''PRESENT'')])
   \<and> handleSubmit (sample_env False True) (Some ''t1'')
       (sample_mark [sample_student ''s2'' ''STU002'' ''Mary Smith'' True])
       (sample_marked [(''s1'', ''ABSENT'')])
     = ((sample_mark [sample_student ''s2'' ''STU002'' ''Mary Smith'' True])
          \<lparr>ma_toasts := [\<lparr>title = ''Attendance submitted!'',
             description = Description ''Today's attendance has been recorded successfully.'',
             destructive = False\<rparr>]\<rparr>,
        sample_marked [(''s1'', ''ABSENT''), (''s2'', ''PRESENT'')])"
  by (simp add: handleSubmit_def submit_body_def call_defs sample_defs Let_def)

section \<open>The uniqueness constraints\<close>



lemma insert_records_duplicate:
  assumes "r \<in> set rows" "r' \<in> set (attendance_records d)" "record_key r = record_key r'"
  shows "\<not> distinct (map record_key (attendance_records d @ rows))"
proof -
  have "record_key r \<in> record_key ` set (attendance_records d) \<inter> record_key ` set rows"
    using assms by (metis IntI imageI)
  then show ?thesis by auto
qed

text \<open>
  Claim C6. An insert that holds a record for a (session, student) pair that is already
  stored, or that holds such a pair twice, is rejected; in every state that the events
  reach from a state with empty attendance tables, no two records have the same
  (session, student) pair, and the property is kept from any state that has it.
\<close>

theorem one_record_per_session_and_student:
  "(r \<in> set rows \<and> r' \<in> set (attendance_records d) \<and> record_key r = record_key r'
      \<longrightarrow> (\<exists>e. insert_records fails uid rows d = Inl e))
   \<and> (\<not> distinct (map record_key rows) \<longrightarrow> (\<exists>e. insert_records fails uid rows d = Inl e))
   \<and> records_unique (sys_db (run (initial ps sts cls ens now) evs))
   \<and> (records_unique (sys_db s) \<longrightarrow> records_unique (sys_db (run s evs)))"
proof (intro conjI impI)
  assume "r \<in> set rows \<and> r' \<in> set (attendance_records d) \<and> record_key r = record_key r'"
  then have "\<not> distinct (map record_key (attendance_records d @ rows))"
    using insert_records_duplicate by blast
  then show "\<exists>e. insert_records fails uid rows d = Inl e"
    by (simp add: insert_records_def)
next
  assume "\<not> distinct (map record_key rows)"
  then have "\<not> distinct (map record_key (attendance_records d @ rows))" by simp
  then show "\<exists>e. insert_records fails uid rows d = Inl e"
    by (simp add: insert_records_def)
next
  have "records_unique (sys_db (initial ps sts cls ens now))"
    by (simp add: records_unique_def initial_fresh)
  then show "records_unique (sys_db (run (initial ps sts cls ens now) evs))"
    by (rule run_records_unique)
next
  assume "records_unique (sys_db s)"
  then show "records_unique (sys_db (run s evs))" by (rule run_records_unique)
qed

theorem one_record_per_session_and_student_witness:
  "(\<exists>e. insert_records False ''t1'' [\<lparr>session_id = ''n1'', student_id = ''s1'', status = ''PRESENT''\<rparr>]
          (sample_marked [(''s1'', ''ABSENT'')]) = Inl e)
   \<and> records_unique
     (sys_db (run (initial [''t1''] (students sample_db) (classes sample_db)
                     (class_enrollments sample_db) 9425)
                [MarkSelectClass ''c1'', LoadStudents False,
                 Submit (sample_env False False) (Some ''t1''),
                 Submit (sample_env False True) (Some ''t1'')]))"
  using one_record_per_session_and_student[where r = "\<lparr>session_id = ''n1'', student_id = ''s1'', status = ''PRESENT''\<rparr>"
      and r' = "\<lparr>session_id = ''n1'', student_id = ''s1'', status = ''ABSENT''\<rparr>"
      and rows = "[\<lparr>session_id = ''n1'', student_id = ''s1'', status = ''PRESENT''\<rparr>]"
      and d = "sample_marked [(''s1'', ''ABSENT'')]" and fails = False and uid = "''t1''"
      and ps = "[''t1'']" and sts = "students sample_db" and cls = "classes sample_db"
      and ens = "class_enrollments sample_db" and now = 9425
      and evs = "[MarkSelectClass ''c1'', LoadStudents False,
                 Submit (sample_env False False) (Some ''t1''),
                 Submit (sample_env False True) (Some ''t1'')]"
      and s = "initial [''t1''] (students sample_db) (classes sample_db)
                 (class_enrollments sample_db) 9425"]
  by (simp add: sample_defs record_key_def)

section \<open>The query and the roster\<close>

text \<open>
  Claim C3. With a class selected and no session for the class and date, a query whose
  lookup goes through shows an empty record list and adds no notification; the resulting
  page state is the same as for a session that exists and has no records.
\<close>

theorem fetch_without_session_is_empty:
  assumes cls: "ca_selectedClass st \<noteq> []"
    and nf: "\<not> session_fetch_fails env" "\<not> records_fetch_fails env"
    and none: "(ca_selectedClass st, ca_selectedDate st) \<notin> set (map session_key (attendance_sessions d))"
    and one: "filter (\<lambda>s. session_key s = (ca_selectedClass st, ca_selectedDate st))
                (attendance_sessions d_empty) = [s]"
    and zero: "\<forall>r\<in>set (attendance_records d_empty). session_id r \<noteq> as_id s"
  shows "fetchAttendance env st d = st\<lparr>ca_records := [], ca_hasSearched := True, ca_loading := False\<rparr>
         \<and> ca_records (fetchAttendance env st d) = []
         \<and> ca_toasts (fetchAttendance env st d) = ca_toasts st
         \<and> fetchAttendance env st d_empty = fetchAttendance env st d"
proof -
  have sel: "select_session (session_fetch_fails env) (ca_selectedClass st) (ca_selectedDate st) d = Inr None"
    using select_session_none[OF none] nf(1) by simp
  have a: "fetchAttendance env st d = st\<lparr>ca_records := [], ca_hasSearched := True, ca_loading := False\<rparr>"
    using cls by (simp add: fetchAttendance_def sel Let_def)
  have "(\<lambda>x. as_class_id x = ca_selectedClass st \<and> as_session_date x = ca_selectedDate st)
          = (\<lambda>x. session_key x = (ca_selectedClass st, ca_selectedDate st))"
    by (auto simp: session_key_def)
  then have sel': "select_session (session_fetch_fails env) (ca_selectedClass st) (ca_selectedDate st) d_empty
                = Inr (Some (as_id s))"
    using one nf(1) by (simp add: select_session_def)
  have "filter (\<lambda>r. session_id r = as_id s) (attendance_records d_empty) = []"
    using zero by (simp add: filter_empty_conv)
  then have recs: "select_records (records_fetch_fails env) (as_id s) d_empty = Inr []"
    using nf(2) by (simp add: select_records_def)
  have b: "fetchAttendance env st d_empty = st\<lparr>ca_records := [], ca_hasSearched := True, ca_loading := False\<rparr>"
    using cls by (simp add: fetchAttendance_def sel' recs formattedRecords_def Let_def)
  show ?thesis using a b by simp
qed

theorem fetch_without_session_is_empty_witness:
  "fetchAttendance \<lparr>session_fetch_fails = False, records_fetch_fails = False\<rparr>
      (sample_check []) sample_db
     = (sample_check [])\<lparr>ca_hasSearched := True\<rparr>
   \<and> fetchAttendance \<lparr>session_fetch_fails = False, records_fetch_fails = False\<rparr>
      (sample_check []) (sample_marked [])
     = (sample_check [])\<lparr>ca_hasSearched := True\<rparr>"
  using fetch_without_session_is_empty[where st = "sample_check []" and d = sample_db and d_empty = "sample_marked []"
      and env = "\<lparr>session_fetch_fails = False, records_fetch_fails = False\<rparr>"
      and s = "\<lparr>as_id = ''n1'', as_class_id = ''c1'', as_session_date = 9425, as_marked_by = Some ''t1''\<rparr>"]
  by (simp add: sample_defs session_key_def)

text \<open>
  Claim C9. When the session lookup finds a session and the fetch of its records fails,
  the displayed records stay as they were, the loading flag is cleared, and apart from
  the search flag and the notification nothing else changes.
\<close>

theorem failed_records_fetch_keeps_records:
  assumes cls: "ca_selectedClass st \<noteq> []"
    and found: "select_session (session_fetch_fails env) (ca_selectedClass st) (ca_selectedDate st) d
                  = Inr (Some sid)"
    and fails: "records_fetch_fails env"
  shows "ca_records (fetchAttendance env st d) = ca_records st
         \<and> ca_loading (fetchAttendance env st d) = False
         \<and> fetchAttendance env st d
             = st\<lparr>ca_hasSearched := True, ca_loading := False,
                   ca_toasts := ca_toasts st @
                     [\<lparr>title = ''Error fetching records'', description = ErrorMessage RequestFailed,
                       destructive = True\<rparr>]\<rparr>"
  using cls fails by (simp add: fetchAttendance_def found select_records_def Let_def)

theorem failed_records_fetch_keeps_records_witness:
  "ca_records (fetchAttendance \<lparr>session_fetch_fails = False, records_fetch_fails = True\<rparr>
      (sample_check [\<lparr>ar_student_id = ''s1'', ar_roll_number = ''STU001'', ar_full_name = ''John Doe'',
                      ar_status = ''ABSENT''\<rparr>])
      (sample_marked [(''s1'', ''PRESENT'')]))
     = [\<lparr>ar_student_id = ''s1'', ar_roll_number = ''STU001'', ar_full_name = ''John Doe'',
                      ar_status = ''ABSENT''\<rparr>]"
  using failed_records_fetch_keeps_records[where env = "\<lparr>session_fetch_fails = False, records_fetch_fails = True\<rparr>"
      and st = "sample_check [\<lparr>ar_student_id = ''s1'', ar_roll_number = ''STU001'', ar_full_name = ''John Doe'',
                      ar_status = ''ABSENT''\<rparr>]"
      and d = "sample_marked [(''s1'', ''PRESENT'')]" and sid = "''n1''"]
  by (simp add: sample_defs select_session_def)

text \<open>
  Claim C8. With a class selected, a load that goes through yields one roster entry per
  enrollment of the class, and every entry has its presence flag true.
\<close>

theorem loaded_roster_all_present:
  assumes cls: "ma_selectedClass st \<noteq> []" and nf: "\<not> fails"
    and fk: "\<forall>e\<in>set (class_enrollments d). e_student_id e \<in> set (map s_id (students d))"
  shows "map id_student (ma_students (loadStudents fails st d))
           = map e_student_id (filter (\<lambda>e. e_class_id e = ma_selectedClass st) (class_enrollments d))
         \<and> (\<forall>s\<in>set (ma_students (loadStudents fails st d)). present s)"
proof -
  have fk': "enrollments_student_fkey d" using fk by (simp add: enrollments_student_fkey_def)
  show ?thesis using loadStudents_roster(1,2)[OF cls nf fk'] by (rule conjI)
qed

theorem loaded_roster_all_present_witness:
  "map id_student (ma_students (loadStudents False (sample_mark []) sample_db))
     = [''s1'', ''s2'', ''s3'']
   \<and> map present (ma_students (loadStudents False (sample_mark []) sample_db))
     = [True, True, True]"
proof -
  have ids: "map id_student (ma_students (loadStudents False (sample_mark []) sample_db))
     = [''s1'', ''s2'', ''s3'']"
    using loaded_roster_all_present[where st = "sample_mark []" and d = sample_db and fails = False]
    by (simp add: sample_defs)
  have "ma_students (loadStudents False (sample_mark []) sample_db)
     = [sample_student ''s1'' ''STU001'' ''John Doe'' True,
        sample_student ''s2'' ''STU002'' ''Mary Smith'' True,
        sample_student ''s3'' ''STU003'' ''Christian Brown'' True]"
    by (simp add: loadStudents_def select_enrollments_def roster_of_def sample_defs)
  then have "map present (ma_students (loadStudents False (sample_mark []) sample_db))
     = [True, True, True]"
    by (simp add: sample_student_def)
  with ids show ?thesis by simp
qed

section \<open>The percentage\<close>

lemma join_one:
  "distinct (map as_id ss) \<Longrightarrow>
     map fst (concat (map (\<lambda>asess. if k = as_id asess then (if P asess then [(ar, asess)] else []) else []) ss))
       = (if \<exists>s\<in>set ss. as_id s = k \<and> P s then [ar] else [])"
proof (induction ss)
  case Nil
  then show ?case by simp
next
  case (Cons a ss)
  let ?f = "\<lambda>asess. if k = as_id asess then (if P asess then [(ar, asess)] else []) else []"
  have dd: "distinct (map as_id ss)" using Cons.prems by simp
  have IH: "map fst (concat (map ?f ss)) = (if \<exists>s\<in>set ss. as_id s = k \<and> P s then [ar] else [])"
    by (rule Cons.IH[OF dd])
  have split: "map fst (concat (map ?f (a # ss))) = map fst (?f a) @ map fst (concat (map ?f ss))"
    by (simp only: list.map concat.simps map_append)
  show ?case
  proof (cases "k = as_id a")
    case True
    have "\<forall>s\<in>set ss. as_id s \<noteq> as_id a" using Cons.prems by (auto simp: image_iff)
    then have none: "\<not> (\<exists>s\<in>set ss. as_id s = k \<and> P s)" unfolding True by blast
    have rest: "map fst (concat (map ?f ss)) = []" unfolding IH using none by (simp only: if_False)
    have hd: "map fst (?f a) = (if P a then [ar] else [])"
      using True by (cases "P a") simp_all
    have ex: "(\<exists>s\<in>set (a # ss). as_id s = k \<and> P s) = P a"
      using none True by (simp only: list.set bex_simps) blast
    show ?thesis unfolding split rest hd ex by (simp only: append_Nil2)
  next
    case False
    have hd: "map fst (?f a) = []" using False by simp
    have ex: "(\<exists>s\<in>set (a # ss). as_id s = k \<and> P s) = (\<exists>s\<in>set ss. as_id s = k \<and> P s)"
      using False by (simp only: list.set bex_simps) blast
    show ?thesis unfolding split hd ex IH by (simp only: append_Nil)
  qed
qed

lemma joined_rows_fst:
  assumes "sessions_pkey d"
  shows "map fst (joined_rows p cl sd ed d) = matching_records p cl sd ed d"
proof -
  let ?W = "\<lambda>ar asess. student_id ar = p
        \<and> (cl = None \<or> as_class_id asess = the cl)
        \<and> (sd = None \<or> as_session_date asess \<ge> the sd)
        \<and> (ed = None \<or> as_session_date asess \<le> the ed)"
  let ?ss = "attendance_sessions d"
  let ?F = "\<lambda>ar. concat (map (\<lambda>asess. if session_id ar = as_id asess
                    then (if ?W ar asess then [(ar, asess)] else []) else []) ?ss)"
  let ?M = "\<lambda>ar. \<exists>s\<in>set ?ss. as_id s = session_id ar \<and> ?W ar s"
  have d: "distinct (map as_id ?ss)" using assms by (simp add: sessions_pkey_def)
  have step: "map fst (?F ar) = (if ?M ar then [ar] else [])" for ar
    by (rule join_one[OF d])
  have main: "map fst (concat (map ?F rs)) = filter ?M rs" for rs
  proof (induction rs)
    case Nil
    show ?case by simp
  next
    case (Cons a rs)
    have "map fst (concat (map ?F (a # rs))) = map fst (?F a) @ map fst (concat (map ?F rs))"
      by (simp only: list.map concat.simps map_append)
    also have "\<dots> = (if ?M a then [a] else []) @ filter ?M rs"
      by (simp only: step Cons.IH)
    also have "\<dots> = filter ?M (a # rs)"
      by (cases "?M a") (simp_all only: filter.simps if_True if_False append_Cons append_Nil)
    finally show ?case .
  qed
  have pred: "?M = (\<lambda>r. student_id r = p \<and>
                 (\<exists>s \<in> set (attendance_sessions d). as_id s = session_id r
                    \<and> (cl = None \<or> as_class_id s = the cl)
                    \<and> (sd = None \<or> as_session_date s \<ge> the sd)
                    \<and> (ed = None \<or> as_session_date s \<le> the ed)))"
    by (intro ext) blast
  show ?thesis
    unfolding joined_rows_def matching_records_def pred[symmetric]
    by (rule main)
qed

lemma matching_records_student:
  "r \<in> set (matching_records p cl sd ed d) \<Longrightarrow> student_id r = p"
  by (simp add: matching_records_def)

lemma matching_records_sessions_distinct:
  assumes "records_unique d"
  shows "distinct (map session_id (matching_records p cl sd ed d))"
proof -
  let ?m = "matching_records p cl sd ed d"
  have "distinct (map record_key ?m)"
    using assms unfolding records_unique_def matching_records_def by (rule distinct_map_filter)
  moreover have "map record_key ?m = map (\<lambda>k. (k, p)) (map session_id ?m)"
    using matching_records_student[of _ p cl sd ed d]
    by (simp add: record_key_def comp_def cong: map_cong)
  ultimately have "distinct (map (\<lambda>k. (k, p)) (map session_id ?m))" by simp
  then show ?thesis by (simp only: distinct_map)
qed

lemma total_sessions_count:
  assumes "records_unique d" "sessions_pkey d"
  shows "length (remdups (map (\<lambda>x. session_id (fst x)) (joined_rows p cl sd ed d)))
           = length (matching_records p cl sd ed d)"
proof -
  have "map (\<lambda>x. session_id (fst x)) (joined_rows p cl sd ed d)
          = map session_id (map fst (joined_rows p cl sd ed d))" by (simp add: comp_def)
  also have "\<dots> = map session_id (matching_records p cl sd ed d)"
    by (simp only: joined_rows_fst[OF assms(2)])
  finally have eq: "map (\<lambda>x. session_id (fst x)) (joined_rows p cl sd ed d)
                      = map session_id (matching_records p cl sd ed d)" .
  show ?thesis
    unfolding eq using matching_records_sessions_distinct[OF assms(1), of p cl sd ed]
    by (simp add: distinct_remdups_id)
qed

lemma present_count:
  assumes "sessions_pkey d"
  shows "length (filter (\<lambda>x. status (fst x) = ''PRESENT'') (joined_rows p cl sd ed d))
           = length (filter (\<lambda>r. status r = ''PRESENT'') (matching_records p cl sd ed d))"
proof -
  have "length (filter (\<lambda>r. status r = ''PRESENT'') (map fst (joined_rows p cl sd ed d)))
          = length (filter (\<lambda>x. status (fst x) = ''PRESENT'') (joined_rows p cl sd ed d))"
    by (simp only: filter_map length_map comp_def)
  then show ?thesis by (simp only: joined_rows_fst[OF assms])
qed

lemma pg_round_nonneg:
  "0 \<le> x \<Longrightarrow> pg_round x 2 = of_int \<lfloor>x * 100 + 1 / 2\<rfloor> / 100"
  by (simp add: pg_round_def Let_def)

lemma pg_round_close:
  assumes "0 \<le> x"
  shows "\<bar>pg_round x 2 - x\<bar> \<le> 1 / 200"
proof -
  let ?k = "\<lfloor>x * 100 + 1 / 2\<rfloor>"
  have 1: "of_int ?k \<le> x * 100 + 1 / 2" by (rule of_int_floor_le)
  have 2: "x * 100 + 1 / 2 < of_int ?k + 1" by linarith
  have "\<bar>of_int ?k / 100 - x\<bar> \<le> 1 / 200" using 1 2 by linarith
  then show ?thesis by (simp only: pg_round_nonneg[OF assms])
qed

text \<open>
  Claim C7. On stored rows that satisfy the primary key of sessions and the uniqueness of
  (session, student), and with counts in the range of INTEGER, the percentage function
  returns the number of PRESENT records by the number of records, times 100, rounded to 2
  decimals, over the student's records whose session passes the filters, and 0 when there
  is no such record. The result is a whole number of hundredths, at most half a hundredth
  away from the exact ratio.
\<close>

theorem percentage_is_rounded_ratio:
  assumes "records_unique d" "sessions_pkey d"
    and "length (matching_records p cl sd ed d) \<le> 2147483647"
  shows "calculate_attendance_percentage p cl sd ed d = Inr (spec_percentage p cl sd ed d)
         \<and> (matching_records p cl sd ed d = [] \<longrightarrow> calculate_attendance_percentage p cl sd ed d = Inr 0)
         \<and> (\<exists>k::int. spec_percentage p cl sd ed d = of_int k / 100)
         \<and> (matching_records p cl sd ed d \<noteq> [] \<longrightarrow>
              \<bar>spec_percentage p cl sd ed d
                - of_nat (length (filter (\<lambda>r. status r = ''PRESENT'') (matching_records p cl sd ed d)))
                  / of_nat (length (matching_records p cl sd ed d)) * 100\<bar> \<le> 1 / 200)"
proof -
  let ?m = "matching_records p cl sd ed d"
  let ?pr = "filter (\<lambda>r. status r = ''PRESENT'') ?m"
  have le: "length ?pr \<le> length ?m" by (rule length_filter_le)
  have t: "into_integer (length ?m) = Inr (int (length ?m))"
    using assms(3) by (simp add: into_integer_def)
  have "length ?pr \<le> 2147483647" using assms(3) le by (rule_tac order_trans)
  then have pc: "into_integer (length ?pr) = Inr (int (length ?pr))"
    by (simp add: into_integer_def)
  have main: "calculate_attendance_percentage p cl sd ed d = Inr (spec_percentage p cl sd ed d)"
    unfolding calculate_attendance_percentage_def spec_percentage_def Let_def
      total_sessions_count[OF assms(1,2)] present_count[OF assms(2)] t pc
    by simp
  have zero: "?m = [] \<longrightarrow> calculate_attendance_percentage p cl sd ed d = Inr 0"
    unfolding main by (simp add: spec_percentage_def)
  let ?q = "(of_nat (length ?pr) / of_nat (length ?m) * 100) :: rat"
  have q0: "0 \<le> ?q" by simp
  have sp: "spec_percentage p cl sd ed d = (if ?m = [] then 0 else pg_round ?q 2)"
    by (simp add: spec_percentage_def Let_def)
  have int: "\<exists>k::int. spec_percentage p cl sd ed d = of_int k / 100"
  proof (cases "?m = []")
    case True
    then have "spec_percentage p cl sd ed d = of_int 0 / 100" unfolding sp by simp
    then show ?thesis by blast
  next
    case False
    then have "spec_percentage p cl sd ed d = of_int \<lfloor>?q * 100 + 1 / 2\<rfloor> / 100"
      unfolding sp using pg_round_nonneg[OF q0] by simp
    then show ?thesis by blast
  qed
  have close: "?m \<noteq> [] \<longrightarrow> \<bar>spec_percentage p cl sd ed d - ?q\<bar> \<le> 1 / 200"
    unfolding sp using pg_round_close[OF q0] by simp
  show ?thesis using main zero int close by blast
qed

theorem percentage_is_rounded_ratio_witness:
  "calculate_attendance_percentage ''s1'' None None None sample_history = Inr (6667 / 100)
   \<and> calculate_attendance_percentage ''s1'' (Some ''c1'') (Some 9426) None sample_history = Inr 50"
proof -
  have fl: "\<lfloor>40003 / 6 :: rat\<rfloor> = 6667" "\<lfloor>10001 / 2 :: rat\<rfloor> = 5000"
    by (rule floor_unique, simp, simp)+
  show ?thesis
    using percentage_is_rounded_ratio[where d = sample_history and p = "''s1''" and cl = None and sd = None and ed = None]
      percentage_is_rounded_ratio[where d = sample_history and p = "''s1''" and cl = "Some ''c1''" and sd = "Some 9426" and ed = None]
    by (simp add: sample_history_def sample_db_def records_unique_def sessions_pkey_def record_key_def
        matching_records_def spec_percentage_def pg_round_def Let_def fl)
qed

end
